theory Spec2Isabelle
  imports Complex_Main "HOL-Library.Char_ord" "HOL-Library.List_Lexorder"
begin

section \<open>ExpenseEase backend: data model\<close>

text \<open>
  The backend is an Express application over a Mongoose/MongoDB store. The model below
  follows the JavaScript sources: the two schemas become records, the collections become
  lists inside an explicit store that every writing handler returns updated, every
  \<open>res.status(n).json(...)\<close> becomes a \<open>response\<close> value, and every exception that a
  handler's \<open>try/catch\<close> turns into a 500 is a branch of the model.

  Numbers that hold money are exact rationals, dates are milliseconds since the epoch,
  and the server's time zone is taken to be UTC.
\<close>

subsection \<open>Identifiers\<close>

text \<open>
  The sources use two renderings of a document identifier and compare them with care:
  the stored \<open>ObjectId\<close> (\<open>expense.user\<close>, \<open>user._id\<close>, \<open>req.user._id\<close>) and its
  hexadecimal string (\<open>req.user.id\<close>, \<open>req.params.id\<close>, the result of \<open>.toString()\<close>).
  Mongoose casts a string to an \<open>ObjectId\<close> in the filter of \<open>find\<close>, \<open>findById\<close>,
  \<open>countDocuments\<close> and in documents it creates; it does not cast the stages of an
  \<open>aggregate\<close> pipeline. Only a string of 24 hexadecimal digits is cast here (older
  driver versions also accept twelve-character strings).
\<close>

datatype objectId = ObjectId string

fun toString :: "objectId \<Rightarrow> string" where
  "toString (ObjectId h) = h"

definition isHexDigit :: "char \<Rightarrow> bool" where
  "isHexDigit c = (c \<in> set ''0123456789abcdefABCDEF'')"

definition lowerHex :: "char \<Rightarrow> char" where
  "lowerHex c =
     (if c = CHR ''A'' then CHR ''a'' else if c = CHR ''B'' then CHR ''b''
      else if c = CHR ''C'' then CHR ''c'' else if c = CHR ''D'' then CHR ''d''
      else if c = CHR ''E'' then CHR ''e'' else if c = CHR ''F'' then CHR ''f'' else c)"

datatype exn = TypeError | CastError | ValidationError | DuplicateKeyError | BadValue

definition castObjectId :: "string \<Rightarrow> exn + objectId" where
  "castObjectId s =
     (if length s = 24 \<and> list_all isHexDigit s then Inr (ObjectId (map lowerHex s))
      else Inl CastError)"

text \<open>A value as a \<open>$match\<close> stage of an aggregation compares it: by type first.\<close>

datatype bson = BObjectId objectId | BString string

subsection \<open>Time\<close>

type_synonym timestamp = int

definition msPerDay :: int where
  "msPerDay = 86400000"

text \<open>
  Days since 1970-01-01 of a proleptic Gregorian date, month 1 to 12, and back. Integer
  division rounds down, as the calendar arithmetic needs.
\<close>

definition daysFromCivil :: "int \<Rightarrow> int \<Rightarrow> int \<Rightarrow> int" where
  "daysFromCivil y m d =
     (let y' = (if m \<le> 2 then y - 1 else y);
          era = y' div 400;
          yoe = y' - era * 400;
          doy = (153 * (if m > 2 then m - 3 else m + 9) + 2) div 5 + d - 1;
          doe = yoe * 365 + yoe div 4 - yoe div 100 + doy
      in era * 146097 + doe - 719468)"

definition civilFromDays :: "int \<Rightarrow> int \<times> int \<times> int" where
  "civilFromDays z =
     (let z' = z + 719468;
          era = z' div 146097;
          doe = z' - era * 146097;
          yoe = (doe - doe div 1460 + doe div 36524 - doe div 146096) div 365;
          doy = doe - (365 * yoe + yoe div 4 - yoe div 100);
          mp = (5 * doy + 2) div 153;
          d = doy - (153 * mp + 2) div 5 + 1;
          m = (if mp < 10 then mp + 3 else mp - 9);
          y = yoe + era * 400 + (if m \<le> 2 then 1 else 0)
      in (y, m, d))"

text \<open>
  \<open>new Date(year, monthIndex, day)\<close>: midnight of that day, the month counted from 0.
  The sources call it with (y, 0, 1), (y, 11, 31) and (y + 1, 0, 1) only; the
  normalisation JavaScript applies to a month index outside 0..11 is not modelled.
\<close>

definition newDate :: "int \<Rightarrow> int \<Rightarrow> int \<Rightarrow> timestamp" where
  "newDate y monthIndex d = daysFromCivil y (monthIndex + 1) d * msPerDay"

definition getFullYear :: "timestamp \<Rightarrow> int" where
  "getFullYear t = fst (civilFromDays (t div msPerDay))"

text \<open>The aggregation operator \<open>$month\<close>: 1 for January to 12 for December.\<close>

definition month :: "timestamp \<Rightarrow> int" where
  "month t = fst (snd (civilFromDays (t div msPerDay)))"

subsection \<open>The two schemas and the store\<close>

text \<open>
  Modelled from the spec: the user schema (\<open>models/User.js\<close> is not among the sources).
  The fields are those of the spec's data model; the password is stored as a hash;
  \<open>lastLogin\<close> has no default.
\<close>

record user =
  u_id :: objectId
  u_name :: string
  u_email :: string
  u_password :: string
  u_role :: string
  u_monthlyBudget :: rat
  u_currency :: string
  u_isActive :: bool
  u_lastLogin :: "timestamp option"
  u_createdAt :: timestamp

text \<open>\<open>expenseSchema\<close> (models/Expense.js), with the timestamps the store keeps.\<close>

record expense =
  e_id :: objectId
  e_user :: objectId
  e_title :: string
  e_amount :: rat
  e_category :: string
  e_description :: "string option"
  e_date :: timestamp
  e_paymentMethod :: string
  e_location :: "string option"
  e_tags :: "string list"
  e_isRecurring :: bool
  e_recurringType :: string
  e_attachments :: "(string \<times> string \<times> string) list"
  e_status :: string
  e_createdAt :: timestamp
  e_updatedAt :: timestamp

record store =
  users :: "user list"
  expenses :: "expense list"

text \<open>
  \<open>req.user\<close>, as the handlers read it: \<open>req.user.id\<close>, which they compare with the
  result of \<open>.toString()\<close> and so is a string; \<open>req.user._id\<close>; and \<open>req.user.role\<close>.
\<close>

record reqUser =
  ru_id :: string
  ru_oid :: objectId
  ru_role :: string

text \<open>
  Modelled from the spec: the \<open>protect\<close> middleware (\<open>middleware/auth.js\<close> is not among
  the sources), which resolves the bearer token to a live user record and attaches it
  to the request.
\<close>

definition protect :: "user \<Rightarrow> reqUser" where
  "protect u = \<lparr>ru_id = toString (u_id u), ru_oid = u_id u, ru_role = u_role u\<rparr>"

subsection \<open>Responses\<close>

record userRef =
  ref_id :: objectId
  ref_name :: string
  ref_email :: string

record pagination =
  currentPage :: int
  totalPages :: "int option"
  totalItems :: int
  itemsPerPage :: int

record groupRow =
  g_key :: string
  g_total :: rat
  g_count :: int

record monthRow =
  m_key :: int
  m_total :: rat
  m_count :: int

record recentRow =
  r_title :: string
  r_amount :: rat
  r_category :: string
  r_date :: timestamp

record statsData =
  totalExpenses :: "rat \<times> int"
  expensesByCategory :: "groupRow list"
  monthlyExpenses :: "monthRow list"
  recentExpenses :: "recentRow list option"

datatype token = Token objectId

record userView =
  v_id :: objectId
  v_name :: string
  v_email :: string
  v_role :: string
  v_monthlyBudget :: rat
  v_currency :: string
  v_lastLogin :: "timestamp option"

datatype payload =
    NoData
  | ErrorDetail exn
  | ExpenseDoc expense
  | ExpensePopulated expense "userRef option"
  | ExpensePage "(expense \<times> userRef option) list" pagination
  | StatsData statsData
  | AuthData userView token

record response =
  status :: nat
  message :: string
  payload :: payload

definition json :: "nat \<Rightarrow> string \<Rightarrow> payload \<Rightarrow> response" where
  "json n msg p = \<lparr>status = n, message = msg, payload = p\<rparr>"

section \<open>Expenses\<close>

subsection \<open>Request bodies and the field-validation stage\<close>

text \<open>
  The JSON body of an expense request, field by field; \<open>None\<close> is an absent field.
  Values of the wrong JSON type (an amount that is not a number, a date that does not
  parse) are outside the model. The body may carry a \<open>user\<close> field: \<open>createExpense\<close>
  overwrites it, \<open>updateExpense\<close> passes it on.
\<close>

record expenseBody =
  b_title :: "string option"
  b_amount :: "rat option"
  b_category :: "string option"
  b_description :: "string option"
  b_date :: "timestamp option"
  b_paymentMethod :: "string option"
  b_location :: "string option"
  b_tags :: "string list option"
  b_isRecurring :: "bool option"
  b_recurringType :: "string option"
  b_status :: "string option"
  b_user :: "string option"

definition categories :: "string list" where
  "categories =
     [''Food & Dining'', ''Transportation'', ''Shopping'', ''Entertainment'', ''Healthcare'',
      ''Education'', ''Housing'', ''Utilities'', ''Insurance'', ''Travel'', ''Gifts'',
      ''Personal Care'', ''Subscriptions'', ''Other'']"

definition paymentMethods :: "string list" where
  "paymentMethods =
     [''Cash'', ''Credit Card'', ''Debit Card'', ''Bank Transfer'', ''Digital Wallet'', ''Other'']"

definition recurringTypes :: "string list" where
  "recurringTypes = [''daily'', ''weekly'', ''monthly'', ''yearly'']"

definition statuses :: "string list" where
  "statuses = [''pending'', ''completed'', ''cancelled'']"

definition isSpace :: "char \<Rightarrow> bool" where
  "isSpace c = (c \<in> set [CHR '' '', CHR 0x09, CHR 0x0A, CHR 0x0B, CHR 0x0C, CHR 0x0D])"

definition trim :: "string \<Rightarrow> string" where
  "trim s = rev (dropWhile isSpace (rev (dropWhile isSpace s)))"

definition optAll :: "('a \<Rightarrow> bool) \<Rightarrow> 'a option \<Rightarrow> bool" where
  "optAll P v = (case v of None \<Rightarrow> True | Some x \<Rightarrow> P x)"

text \<open>
  \<open>expenseValidation\<close> (routes/expense.js, lines 9 to 74): the express-validator chains
  of the create and update routes. A chain is a middleware that records its error
  message in the request and calls \<open>next()\<close>; its sanitizers (\<open>trim\<close>) rewrite the body
  in place. The recorded errors are only ever seen by a handler that calls
  \<open>validationResult(req)\<close>, and no handler of the repository does. The function
  returns the messages recorded, in the order of the chains. The chains on \<open>date\<close>,
  \<open>tags\<close> and \<open>isRecurring\<close> check the JSON type, which the typed body already has,
  so they record nothing here.
\<close>

definition expenseValidation :: "expenseBody \<Rightarrow> string list" where
  "expenseValidation b =
     (if (case b_title b of None \<Rightarrow> False
          | Some t \<Rightarrow> 1 \<le> length (trim t) \<and> length (trim t) \<le> 100)
      then [] else [''Title must be between 1 and 100 characters'']) @
     (if (case b_amount b of None \<Rightarrow> False | Some a \<Rightarrow> 0 \<le> a)
      then [] else [''Amount must be a positive number'']) @
     (if (case b_category b of None \<Rightarrow> False | Some c \<Rightarrow> c \<in> set categories)
      then [] else [''Invalid category'']) @
     (if optAll (\<lambda>d. length (trim d) \<le> 500) (b_description b)
      then [] else [''Description cannot exceed 500 characters'']) @
     (if optAll (\<lambda>v. v \<in> set paymentMethods) (b_paymentMethod b)
      then [] else [''Invalid payment method'']) @
     (if optAll (\<lambda>l. length (trim l) \<le> 100) (b_location b)
      then [] else [''Location cannot exceed 100 characters'']) @
     (if optAll (list_all (\<lambda>t. length (trim t) \<le> 20)) (b_tags b)
      then [] else [''Each tag cannot exceed 20 characters'']) @
     (if optAll (\<lambda>v. v \<in> set recurringTypes) (b_recurringType b)
      then [] else [''Invalid recurring type'']) @
     (if optAll (\<lambda>v. v \<in> set statuses) (b_status b)
      then [] else [''Invalid status''])"

text \<open>
  The sanitizers of the chains. A field the request does not carry is left absent here;
  for the required title this makes no difference to \<open>Expense.create\<close>, which refuses
  an empty title and a missing one alike.
\<close>

definition sanitizeExpense :: "expenseBody \<Rightarrow> expenseBody" where
  "sanitizeExpense b =
     b\<lparr>b_title := map_option trim (b_title b),
       b_description := map_option trim (b_description b),
       b_location := map_option trim (b_location b),
       b_tags := map_option (map trim) (b_tags b)\<rparr>"

subsection \<open>The expense collection\<close>

text \<open>
  The validators of \<open>expenseSchema\<close>, run by \<open>Expense.create\<close> on the whole document
  and by \<open>findByIdAndUpdate\<close> with \<open>runValidators\<close> on the fields the update sets.
\<close>

definition validTitle :: "string \<Rightarrow> bool" where
  "validTitle t = (t \<noteq> [] \<and> length t \<le> 100)"

definition validAmount :: "rat \<Rightarrow> bool" where
  "validAmount a = (0 \<le> a)"

definition validCategory :: "string \<Rightarrow> bool" where
  "validCategory c = (c \<in> set categories)"

definition validateExpense :: "expense \<Rightarrow> bool" where
  "validateExpense e =
     (validTitle (e_title e) \<and> validAmount (e_amount e) \<and> validCategory (e_category e) \<and>
      optAll (\<lambda>d. length d \<le> 500) (e_description e) \<and>
      e_paymentMethod e \<in> set paymentMethods \<and>
      optAll (\<lambda>l. length l \<le> 100) (e_location e) \<and>
      list_all (\<lambda>t. length t \<le> 20) (e_tags e) \<and>
      e_recurringType e \<in> set recurringTypes \<and>
      e_status e \<in> set statuses)"

definition orDefault :: "'a option \<Rightarrow> 'a \<Rightarrow> 'a" where
  "orDefault v d = (case v of None \<Rightarrow> d | Some x \<Rightarrow> x)"

text \<open>
  \<open>Expense.create(doc)\<close>: casts the owner, applies the setters and the defaults of the
  schema, validates, and inserts under the identifier the driver generated. A missing
  required field, a failed cast and a failed validator all raise.
\<close>

definition Expense_create ::
  "timestamp \<Rightarrow> objectId \<Rightarrow> expense list \<Rightarrow> expenseBody \<Rightarrow> exn + expense \<times> expense list" where
  "Expense_create now newId coll doc =
     (case (b_user doc, b_title doc, b_amount doc, b_category doc) of
        (Some uid, Some t, Some a, Some c) \<Rightarrow>
          (case castObjectId uid of
             Inl err \<Rightarrow> Inl ValidationError
           | Inr owner \<Rightarrow>
               (let e = \<lparr>e_id = newId, e_user = owner, e_title = trim t, e_amount = a,
                          e_category = c,
                          e_description = map_option trim (b_description doc),
                          e_date = orDefault (b_date doc) now,
                          e_paymentMethod = orDefault (b_paymentMethod doc) ''Cash'',
                          e_location = map_option trim (b_location doc),
                          e_tags = map trim (orDefault (b_tags doc) []),
                          e_isRecurring = orDefault (b_isRecurring doc) False,
                          e_recurringType = orDefault (b_recurringType doc) ''monthly'',
                          e_attachments = [],
                          e_status = orDefault (b_status doc) ''completed'',
                          e_createdAt = now, e_updatedAt = now\<rparr>
                in if validateExpense e then Inr (e, coll @ [e]) else Inl ValidationError))
      | _ \<Rightarrow> Inl ValidationError)"

text \<open>\<open>Expense.findById(id)\<close>: the string is cast; a string that is no identifier raises.\<close>

definition Expense_findById :: "expense list \<Rightarrow> string \<Rightarrow> exn + expense option" where
  "Expense_findById coll idParam =
     (case castObjectId idParam of
        Inl err \<Rightarrow> Inl err
      | Inr oid \<Rightarrow> Inr (find (\<lambda>e. e_id e = oid) coll))"

text \<open>
  \<open>.populate('user', 'name email')\<close>: the owner's identifier is replaced by the owner's
  document, cut to the selected fields, and by \<open>null\<close> when no user has that identifier.
\<close>

definition populate :: "user list \<Rightarrow> objectId \<Rightarrow> userRef option" where
  "populate us owner =
     map_option (\<lambda>u. \<lparr>ref_id = u_id u, ref_name = u_name u, ref_email = u_email u\<rparr>)
       (find (\<lambda>u. u_id u = owner) us)"

text \<open>
  \<open>Expense.findByIdAndUpdate(id, body, {new: true, runValidators: true})\<close>: the fields
  the body carries are cast, passed through the setters, validated and written; the
  others stay. The result is the updated document, or \<open>null\<close> when none has the
  identifier.
\<close>

definition validUpdate :: "expenseBody \<Rightarrow> bool" where
  "validUpdate b =
     (optAll (\<lambda>t. validTitle (trim t)) (b_title b) \<and>
      optAll validAmount (b_amount b) \<and>
      optAll validCategory (b_category b) \<and>
      optAll (\<lambda>d. length (trim d) \<le> 500) (b_description b) \<and>
      optAll (\<lambda>v. v \<in> set paymentMethods) (b_paymentMethod b) \<and>
      optAll (\<lambda>l. length (trim l) \<le> 100) (b_location b) \<and>
      optAll (list_all (\<lambda>t. length (trim t) \<le> 20)) (b_tags b) \<and>
      optAll (\<lambda>v. v \<in> set recurringTypes) (b_recurringType b) \<and>
      optAll (\<lambda>v. v \<in> set statuses) (b_status b))"

definition applyUpdate :: "timestamp \<Rightarrow> objectId option \<Rightarrow> expenseBody \<Rightarrow> expense \<Rightarrow> expense" where
  "applyUpdate now owner b e =
     e\<lparr>e_user := orDefault owner (e_user e),
       e_title := orDefault (map_option trim (b_title b)) (e_title e),
       e_amount := orDefault (b_amount b) (e_amount e),
       e_category := orDefault (b_category b) (e_category e),
       e_description := (case b_description b of None \<Rightarrow> e_description e | Some d \<Rightarrow> Some (trim d)),
       e_date := orDefault (b_date b) (e_date e),
       e_paymentMethod := orDefault (b_paymentMethod b) (e_paymentMethod e),
       e_location := (case b_location b of None \<Rightarrow> e_location e | Some l \<Rightarrow> Some (trim l)),
       e_tags := orDefault (map_option (map trim) (b_tags b)) (e_tags e),
       e_isRecurring := orDefault (b_isRecurring b) (e_isRecurring e),
       e_recurringType := orDefault (b_recurringType b) (e_recurringType e),
       e_status := orDefault (b_status b) (e_status e),
       e_updatedAt := now\<rparr>"

definition castOwner :: "string option \<Rightarrow> exn + objectId option" where
  "castOwner v =
     (case v of
        None \<Rightarrow> Inr None
      | Some s \<Rightarrow> (case castObjectId s of Inl err \<Rightarrow> Inl err | Inr oid \<Rightarrow> Inr (Some oid)))"

definition Expense_findByIdAndUpdate ::
  "timestamp \<Rightarrow> expense list \<Rightarrow> string \<Rightarrow> expenseBody \<Rightarrow> exn + expense option \<times> expense list" where
  "Expense_findByIdAndUpdate now coll idParam b =
     (case castObjectId idParam of
        Inl err \<Rightarrow> Inl err
      | Inr oid \<Rightarrow>
          (case castOwner (b_user b) of
             Inl err \<Rightarrow> Inl err
           | Inr owner \<Rightarrow>
               if \<not> validUpdate b then Inl ValidationError
               else
                 (case find (\<lambda>e. e_id e = oid) coll of
                    None \<Rightarrow> Inr (None, coll)
                  | Some e \<Rightarrow>
                      Inr (Some (applyUpdate now owner b e),
                           map (\<lambda>x. if e_id x = oid then applyUpdate now owner b x else x) coll))))"

text \<open>\<open>expense.deleteOne()\<close>: the document with that identifier leaves the collection.\<close>

definition Expense_deleteOne :: "expense list \<Rightarrow> expense \<Rightarrow> expense list" where
  "Expense_deleteOne coll e = filter (\<lambda>x. e_id x \<noteq> e_id e) coll"

subsection \<open>Create, get, update, delete (controllers/expenseController.js)\<close>

definition createExpense ::
  "timestamp \<Rightarrow> objectId \<Rightarrow> store \<Rightarrow> reqUser \<Rightarrow> expenseBody \<Rightarrow> response \<times> store" where
  "createExpense now newId st u body =
     (let expenseData = body\<lparr>b_user := Some (ru_id u)\<rparr>
      in case Expense_create now newId (expenses st) expenseData of
           Inr (expense, coll) \<Rightarrow>
             (json 201 ''Expense created successfully'' (ExpenseDoc expense),
              st\<lparr>expenses := coll\<rparr>)
         | Inl error \<Rightarrow> (json 500 ''Failed to create expense'' (ErrorDetail error), st))"

text \<open>
  In \<open>getExpense\<close> the owner is populated before the ownership check, and the check reads
  \<open>expense.user._id\<close>: on an expense whose owner has no user document \<open>expense.user\<close> is
  \<open>null\<close>, the read throws a \<open>TypeError\<close>, and the \<open>catch\<close> answers 500.
\<close>

definition getExpense :: "store \<Rightarrow> reqUser \<Rightarrow> string \<Rightarrow> response" where
  "getExpense st u idParam =
     (case Expense_findById (expenses st) idParam of
        Inl error \<Rightarrow> json 500 ''Failed to get expense'' (ErrorDetail error)
      | Inr None \<Rightarrow> json 404 ''Expense not found'' NoData
      | Inr (Some expense) \<Rightarrow>
          (case populate (users st) (e_user expense) of
             None \<Rightarrow> json 500 ''Failed to get expense'' (ErrorDetail TypeError)
           | Some owner \<Rightarrow>
               if toString (ref_id owner) \<noteq> ru_id u \<and> ru_role u \<noteq> ''admin''
               then json 403 ''Not authorized to access this expense'' NoData
               else json 200 [] (ExpensePopulated expense (Some owner))))"

definition updateExpense ::
  "timestamp \<Rightarrow> store \<Rightarrow> reqUser \<Rightarrow> string \<Rightarrow> expenseBody \<Rightarrow> response \<times> store" where
  "updateExpense now st u idParam body =
     (case Expense_findById (expenses st) idParam of
        Inl error \<Rightarrow> (json 500 ''Failed to update expense'' (ErrorDetail error), st)
      | Inr None \<Rightarrow> (json 404 ''Expense not found'' NoData, st)
      | Inr (Some expense) \<Rightarrow>
          if toString (e_user expense) \<noteq> ru_id u \<and> ru_role u \<noteq> ''admin''
          then (json 403 ''Not authorized to update this expense'' NoData, st)
          else
            (case Expense_findByIdAndUpdate now (expenses st) idParam body of
               Inl error \<Rightarrow> (json 500 ''Failed to update expense'' (ErrorDetail error), st)
             | Inr (None, coll) \<Rightarrow>
                 (json 200 ''Expense updated successfully'' NoData, st\<lparr>expenses := coll\<rparr>)
             | Inr (Some updated, coll) \<Rightarrow>
                 (json 200 ''Expense updated successfully''
                    (ExpensePopulated updated (populate (users st) (e_user updated))),
                  st\<lparr>expenses := coll\<rparr>)))"

definition deleteExpense :: "store \<Rightarrow> reqUser \<Rightarrow> string \<Rightarrow> response \<times> store" where
  "deleteExpense st u idParam =
     (case Expense_findById (expenses st) idParam of
        Inl error \<Rightarrow> (json 500 ''Failed to delete expense'' (ErrorDetail error), st)
      | Inr None \<Rightarrow> (json 404 ''Expense not found'' NoData, st)
      | Inr (Some expense) \<Rightarrow>
          if toString (e_user expense) \<noteq> ru_id u \<and> ru_role u \<noteq> ''admin''
          then (json 403 ''Not authorized to delete this expense'' NoData, st)
          else (json 200 ''Expense deleted successfully'' NoData,
                st\<lparr>expenses := Expense_deleteOne (expenses st) expense\<rparr>))"

text \<open>
  The create route, \<open>router.post('/', expenseValidation, createExpense)\<close>: the chains
  run and sanitize, then the handler runs on the sanitized body whatever they recorded.
  The pair returned holds the recorded validation errors beside the handler's result.
\<close>

definition postExpense ::
  "timestamp \<Rightarrow> objectId \<Rightarrow> store \<Rightarrow> reqUser \<Rightarrow> expenseBody \<Rightarrow> string list \<times> response \<times> store" where
  "postExpense now newId st u body =
     (expenseValidation body, createExpense now newId st u (sanitizeExpense body))"

subsection \<open>Route tables of the two expense routers\<close>

text \<open>
  An Express router tries its routes in the order of registration and hands the request
  to the first whose method and path match. Every handler of these routers answers the
  request and never calls \<open>next()\<close>, so no later route sees it. A request path is the
  list of its segments below the mount point: \<open>/\<close> is \<open>[]\<close>, \<open>/stats\<close> is \<open>[''stats'']\<close>;
  a literal segment is matched as written (Express would also accept another letter
  case). Both routers start with \<open>router.use(protect)\<close>, which answers 401 itself when
  the request carries no valid token.
\<close>

datatype httpMethod = GET | POST | PUT | DELETE

datatype segment = Lit string | Param string

datatype handler =
  CreateExpense | GetExpenses | GetExpense | UpdateExpense | DeleteExpense | GetExpenseStats

type_synonym route = "httpMethod \<times> segment list \<times> handler"

fun matchPath :: "segment list \<Rightarrow> string list \<Rightarrow> (string \<times> string) list option" where
  "matchPath [] [] = Some []"
| "matchPath (Lit s # ps) (x # xs) = (if s = x then matchPath ps xs else None)"
| "matchPath (Param n # ps) (x # xs) = map_option ((#) (n, x)) (matchPath ps xs)"
| "matchPath _ _ = None"

fun dispatch :: "route list \<Rightarrow> httpMethod \<Rightarrow> string list \<Rightarrow> (handler \<times> (string \<times> string) list) option" where
  "dispatch [] m p = None"
| "dispatch ((m', pat, h) # rs) m p =
     (if m' = m
      then (case matchPath pat p of Some params \<Rightarrow> Some (h, params) | None \<Rightarrow> dispatch rs m p)
      else dispatch rs m p)"

datatype routed = Unauthenticated | NotFound | Routed handler "(string \<times> string) list"

definition handleRequest :: "route list \<Rightarrow> reqUser option \<Rightarrow> httpMethod \<Rightarrow> string list \<Rightarrow> routed" where
  "handleRequest router auth m p =
     (case auth of
        None \<Rightarrow> Unauthenticated
      | Some u \<Rightarrow> (case dispatch router m p of None \<Rightarrow> NotFound | Some (h, params) \<Rightarrow> Routed h params))"

text \<open>The router of src/unnamed/part_001, its handlers written inline, in its order.\<close>

definition inlineExpenseRouter :: "route list" where
  "inlineExpenseRouter =
     [(POST, [], CreateExpense),
      (GET, [], GetExpenses),
      (GET, [Param ''id''], GetExpense),
      (PUT, [Param ''id''], UpdateExpense),
      (DELETE, [Param ''id''], DeleteExpense),
      (GET, [Lit ''stats''], GetExpenseStats)]"

text \<open>The router of src/routes/expense.js (lines 80 to 85), in its order.\<close>

definition expenseRouter :: "route list" where
  "expenseRouter =
     [(POST, [], CreateExpense),
      (GET, [], GetExpenses),
      (GET, [Lit ''stats''], GetExpenseStats),
      (GET, [Param ''id''], GetExpense),
      (PUT, [Param ''id''], UpdateExpense),
      (DELETE, [Param ''id''], DeleteExpense)]"

section \<open>Users and authentication\<close>

text \<open>
  Modelled from the spec: what the handlers use from outside the sources, as
  parameters of which nothing is assumed. The operator's admin credentials come from
  \<open>process.env\<close>; \<open>hashPassword\<close> and \<open>comparePassword\<close> (the spec's \<open>verifyPassword\<close>,
  the candidate first and the stored hash second) and the email syntax check belong to
  \<open>models/User.js\<close>.
\<close>

record env =
  ADMIN_EMAIL :: string
  ADMIN_PASSWORD :: string
  hashPassword :: "string \<Rightarrow> string"
  comparePassword :: "string \<Rightarrow> string \<Rightarrow> bool"
  isEmail :: "string \<Rightarrow> bool"

record userDoc =
  d_name :: "string option"
  d_email :: "string option"
  d_password :: "string option"
  d_role :: "string option"
  d_monthlyBudget :: rat
  d_currency :: string

definition currencies :: "string list" where
  "currencies = [''USD'', ''EUR'', ''GBP'', ''INR'', ''CAD'', ''AUD'']"

text \<open>
  Modelled from the spec: the validators of the user schema (data model of the spec:
  name of 2 to 50 characters, valid email syntax, role user or admin, budget not
  negative, currency of the enum).
\<close>

definition validateUser :: "env \<Rightarrow> user \<Rightarrow> bool" where
  "validateUser env u =
     (2 \<le> length (u_name u) \<and> length (u_name u) \<le> 50 \<and> isEmail env (u_email u) \<and>
      u_role u \<in> set [''user'', ''admin''] \<and> 0 \<le> u_monthlyBudget u \<and>
      u_currency u \<in> set currencies)"

definition User_findOne :: "user list \<Rightarrow> string \<Rightarrow> user option" where
  "User_findOne us email = find (\<lambda>u. u_email u = email) us"

definition User_findById :: "user list \<Rightarrow> string \<Rightarrow> exn + user option" where
  "User_findById us idParam =
     (case castObjectId idParam of
        Inl err \<Rightarrow> Inl err
      | Inr oid \<Rightarrow> Inr (find (\<lambda>u. u_id u = oid) us))"

text \<open>
  Modelled from the spec: \<open>User.create(doc)\<close> on the user schema of the spec's data
  model. The defaults are applied (role user, active, no \<open>lastLogin\<close>), the document is
  validated, the password hashed, and the document inserted; the unique index on
  \<open>email\<close> refuses the insert with a duplicate-key error when a user already holds the
  email.
\<close>

definition User_create ::
  "env \<Rightarrow> timestamp \<Rightarrow> objectId \<Rightarrow> user list \<Rightarrow> userDoc \<Rightarrow> exn + user \<times> user list" where
  "User_create env now newId us doc =
     (case (d_name doc, d_email doc, d_password doc) of
        (Some n, Some e, Some p) \<Rightarrow>
          (let u = \<lparr>u_id = newId, u_name = trim n, u_email = e,
                     u_password = hashPassword env p,
                     u_role = orDefault (d_role doc) ''user'',
                     u_monthlyBudget = d_monthlyBudget doc, u_currency = d_currency doc,
                     u_isActive = True, u_lastLogin = None, u_createdAt = now\<rparr>
           in if p = [] \<or> \<not> validateUser env u then Inl ValidationError
              else if User_findOne us e \<noteq> None then Inl DuplicateKeyError
              else Inr (u, us @ [u]))
      | _ \<Rightarrow> Inl ValidationError)"

text \<open>
  \<open>user.save()\<close> writes the document back under its identifier. The handlers save a
  document they have just read, with \<open>lastLogin\<close> changed and nothing else; the schema's
  validation of it on the way is taken to pass.
\<close>

definition User_save :: "user list \<Rightarrow> user \<Rightarrow> user list" where
  "User_save us u = map (\<lambda>x. if u_id x = u_id u then u else x) us"

definition User_deleteOne :: "user list \<Rightarrow> user \<Rightarrow> user list" where
  "User_deleteOne us u = filter (\<lambda>x. u_id x \<noteq> u_id u) us"

definition generateToken :: "objectId \<Rightarrow> token" where
  "generateToken i = Token i"

definition userView :: "user \<Rightarrow> userView" where
  "userView u =
     \<lparr>v_id = u_id u, v_name = u_name u, v_email = u_email u, v_role = u_role u,
      v_monthlyBudget = u_monthlyBudget u, v_currency = u_currency u,
      v_lastLogin = u_lastLogin u\<rparr>"

subsection \<open>Register (controllers/authController.js, lines 14 to 63)\<close>

record registerBody =
  rb_name :: "string option"
  rb_email :: "string option"
  rb_password :: "string option"
  rb_monthlyBudget :: "rat option"
  rb_currency :: "string option"

text \<open>
  The handler awaits the store twice: \<open>User.findOne\<close>, then \<open>User.create\<close>. Another
  request may run between the two, so the handler is written as its two halves:
  \<open>registerLookup\<close> is the first store call, \<open>registerAfterLookup\<close> is the rest, given
  what the lookup returned and the store as it is by then. \<open>register\<close> is one request
  running alone.
\<close>

definition registerLookup :: "store \<Rightarrow> registerBody \<Rightarrow> user option" where
  "registerLookup st body =
     (case rb_email body of None \<Rightarrow> None | Some email \<Rightarrow> User_findOne (users st) email)"

definition registerAfterLookup ::
  "env \<Rightarrow> timestamp \<Rightarrow> objectId \<Rightarrow> user option \<Rightarrow> store \<Rightarrow> registerBody \<Rightarrow> response \<times> store" where
  "registerAfterLookup env now newId existingUser st body =
     (case existingUser of
        Some _ \<Rightarrow> (json 400 ''User already exists with this email'' NoData, st)
      | None \<Rightarrow>
          (case User_create env now newId (users st)
                  \<lparr>d_name = rb_name body, d_email = rb_email body,
                   d_password = rb_password body, d_role = None,
                   d_monthlyBudget =
                     (case rb_monthlyBudget body of None \<Rightarrow> 0 | Some b \<Rightarrow> b),
                   d_currency =
                     (case rb_currency body of
                        None \<Rightarrow> ''USD'' | Some c \<Rightarrow> if c = [] then ''USD'' else c)\<rparr> of
             Inr (user, us) \<Rightarrow>
               (json 201 ''User registered successfully''
                  (AuthData ((userView user)\<lparr>v_lastLogin := None\<rparr>) (generateToken (u_id user))),
                st\<lparr>users := us\<rparr>)
           | Inl error \<Rightarrow> (json 500 ''Registration failed'' (ErrorDetail error), st)))"

definition register ::
  "env \<Rightarrow> timestamp \<Rightarrow> objectId \<Rightarrow> store \<Rightarrow> registerBody \<Rightarrow> response \<times> store" where
  "register env now newId st body =
     registerAfterLookup env now newId (registerLookup st body) st body"

subsection \<open>Login and admin login (lines 68 to 130 and 135 to 202)\<close>

record loginBody =
  lb_email :: "string option"
  lb_password :: "string option"

definition login :: "env \<Rightarrow> timestamp \<Rightarrow> store \<Rightarrow> loginBody \<Rightarrow> response \<times> store" where
  "login env now st body =
     (case (lb_email body, lb_password body) of
        (Some email, Some password) \<Rightarrow>
          if email = [] \<or> password = []
          then (json 400 ''Please provide email and password'' NoData, st)
          else
            (case User_findOne (users st) email of
               None \<Rightarrow> (json 401 ''Invalid email or password'' NoData, st)
             | Some user \<Rightarrow>
                 if \<not> comparePassword env password (u_password user)
                 then (json 401 ''Invalid email or password'' NoData, st)
                 else if \<not> u_isActive user
                 then (json 401 ''Account is deactivated. Please contact support.'' NoData, st)
                 else
                   (let user' = user\<lparr>u_lastLogin := Some now\<rparr>
                    in (json 200 ''Login successful''
                          (AuthData (userView user') (generateToken (u_id user'))),
                        st\<lparr>users := User_save (users st) user'\<rparr>)))
      | _ \<Rightarrow> (json 400 ''Please provide email and password'' NoData, st))"

definition adminLogin ::
  "env \<Rightarrow> timestamp \<Rightarrow> objectId \<Rightarrow> store \<Rightarrow> loginBody \<Rightarrow> response \<times> store" where
  "adminLogin env now newId st body =
     (case (lb_email body, lb_password body) of
        (Some email, Some password) \<Rightarrow>
          if email = [] \<or> password = []
          then (json 400 ''Please provide email and password'' NoData, st)
          else if email \<noteq> ADMIN_EMAIL env \<or> password \<noteq> ADMIN_PASSWORD env
          then (json 401 ''Invalid admin credentials'' NoData, st)
          else
            (case User_findOne (users st) (ADMIN_EMAIL env) of
               None \<Rightarrow>
                 (case User_create env now newId (users st)
                         \<lparr>d_name = Some ''Admin'', d_email = Some (ADMIN_EMAIL env),
                          d_password = Some (ADMIN_PASSWORD env), d_role = Some ''admin'',
                          d_monthlyBudget = 0, d_currency = ''USD''\<rparr> of
                    Inr (adminUser, us) \<Rightarrow>
                      (json 200 ''Admin login successful''
                         (AuthData (userView adminUser) (generateToken (u_id adminUser))),
                       st\<lparr>users := us\<rparr>)
                  | Inl error \<Rightarrow> (json 500 ''Admin login failed'' (ErrorDetail error), st))
             | Some adminUser \<Rightarrow>
                 (let adminUser' = adminUser\<lparr>u_lastLogin := Some now\<rparr>
                  in (json 200 ''Admin login successful''
                        (AuthData (userView adminUser') (generateToken (u_id adminUser'))),
                      st\<lparr>users := User_save (users st) adminUser'\<rparr>)))
      | _ \<Rightarrow> (json 400 ''Please provide email and password'' NoData, st))"

subsection \<open>Deleting a user (routes/user.js lines 142 to 172, authController.js lines 529 to 562)\<close>

text \<open>
  \<open>deleteAccount\<close> is the self-service handler; \<open>deleteUser\<close> the admin's, behind the
  admin gate. When \<open>findById\<close> finds no user for the caller, \<open>user.comparePassword\<close> is a
  call on \<open>null\<close> and throws.
\<close>

definition deleteAccount :: "env \<Rightarrow> store \<Rightarrow> reqUser \<Rightarrow> string option \<Rightarrow> response \<times> store" where
  "deleteAccount env st u password =
     (case password of
        None \<Rightarrow> (json 400 ''Please provide password to confirm account deletion'' NoData, st)
      | Some pw \<Rightarrow>
          if pw = []
          then (json 400 ''Please provide password to confirm account deletion'' NoData, st)
          else
            (case User_findById (users st) (ru_id u) of
               Inl error \<Rightarrow> (json 500 ''Failed to delete account'' (ErrorDetail error), st)
             | Inr None \<Rightarrow> (json 500 ''Failed to delete account'' (ErrorDetail TypeError), st)
             | Inr (Some user) \<Rightarrow>
                 if \<not> comparePassword env pw (u_password user)
                 then (json 400 ''Password is incorrect'' NoData, st)
                 else (json 200 ''Account deleted successfully'' NoData,
                       st\<lparr>users := User_deleteOne (users st) user\<rparr>)))"

definition deleteUser :: "store \<Rightarrow> reqUser \<Rightarrow> string \<Rightarrow> response \<times> store" where
  "deleteUser st u idParam =
     (case User_findById (users st) idParam of
        Inl error \<Rightarrow> (json 500 ''Failed to delete user'' (ErrorDetail error), st)
      | Inr None \<Rightarrow> (json 404 ''User not found'' NoData, st)
      | Inr (Some user) \<Rightarrow>
          if toString (u_id user) = ru_id u
          then (json 400 ''Cannot delete your own account'' NoData, st)
          else (json 200 ''User deleted successfully'' NoData,
                st\<lparr>users := User_deleteOne (users st) user\<rparr>))"

section \<open>Listing and statistics\<close>

subsection \<open>Paginated lists (expenseController.js lines 33 to 97, authController.js lines 567 to 624)\<close>












subsection \<open>Aggregations\<close>

text \<open>
  A \<open>$match\<close> stage of \<open>Expense.aggregate\<close> on the owner and a date range. The pipeline
  is sent to the store as written: the owner given is compared with the stored
  \<open>ObjectId\<close> as a value of its own type.
\<close>

definition matchStage ::
  "bson option \<Rightarrow> (timestamp \<Rightarrow> bool) \<Rightarrow> expense list \<Rightarrow> expense list" where
  "matchStage owner inRange coll =
     filter (\<lambda>e. optAll (\<lambda>v. BObjectId (e_user e) = v) owner \<and> inRange (e_date e)) coll"

text \<open>\<open>$group\<close> with \<open>_id: null\<close>: one row over all documents, no row when there are none.\<close>

definition groupAll :: "expense list \<Rightarrow> (rat \<times> int) list" where
  "groupAll xs = (if xs = [] then [] else [(sum_list (map e_amount xs), int (length xs))])"

text \<open>\<open>$group\<close> by a key: one row per key that occurs, with the sum and the count.\<close>

definition groupBy :: "(expense \<Rightarrow> 'k) \<Rightarrow> expense list \<Rightarrow> ('k \<times> rat \<times> int) list" where
  "groupBy key xs =
     map (\<lambda>k. (k, sum_list (map e_amount (filter (\<lambda>e. key e = k) xs)),
                int (length (filter (\<lambda>e. key e = k) xs))))
       (remdups (map key xs))"

definition firstOr :: "'a list \<Rightarrow> 'a \<Rightarrow> 'a" where
  "firstOr xs d = (case xs of [] \<Rightarrow> d | x # _ \<Rightarrow> x)"

definition dateRange :: "timestamp option \<Rightarrow> timestamp option \<Rightarrow> timestamp \<Rightarrow> bool" where
  "dateRange startDate endDate t =
     (optAll (\<lambda>s. s \<le> t) startDate \<and> optAll (\<lambda>e. t \<le> e) endDate)"

text \<open>
  The two windows of the current year. \<open>yearInclusive\<close> is
  \<open>{$gte: new Date(y, 0, 1), $lte: new Date(y, 11, 31)}\<close> (expenseController.js line 255,
  authController.js line 666); \<open>yearHalfOpen\<close> is
  \<open>{$gte: new Date(y, 0, 1), $lt: new Date(y + 1, 0, 1)}\<close> (part_001 line 296, part_002
  line 70).
\<close>

definition yearInclusive :: "int \<Rightarrow> timestamp \<Rightarrow> bool" where
  "yearInclusive y t = (newDate y 0 1 \<le> t \<and> t \<le> newDate y 11 31)"

definition yearHalfOpen :: "int \<Rightarrow> timestamp \<Rightarrow> bool" where
  "yearHalfOpen y t = (newDate y 0 1 \<le> t \<and> t < newDate (y + 1) 0 1)"

definition monthRows :: "expense list \<Rightarrow> monthRow list" where
  "monthRows xs =
     sort_key m_key
       (map (\<lambda>(k, t, c). \<lparr>m_key = k, m_total = t, m_count = c\<rparr>) (groupBy (\<lambda>e. month (e_date e)) xs))"

definition categoryRows :: "expense list \<Rightarrow> groupRow list" where
  "categoryRows xs =
     rev (sort_key g_total
       (map (\<lambda>(k, t, c). \<lparr>g_key = k, g_total = t, g_count = c\<rparr>) (groupBy e_category xs)))"

definition recentRows :: "expense list \<Rightarrow> recentRow list" where
  "recentRows xs =
     map (\<lambda>e. \<lparr>r_title = e_title e, r_amount = e_amount e, r_category = e_category e,
                r_date = e_date e\<rparr>)
       (take 5 (rev (sort_key e_date xs)))"

subsection \<open>Statistics handlers\<close>

text \<open>
  \<open>getExpenseStats\<close> (expenseController.js lines 220 to 294). The total and the
  per-category aggregation match on \<open>filter = {user: req.user.id}\<close>, the string; the
  monthly aggregation matches on \<open>req.user._id\<close>; the recent expenses come from
  \<open>Expense.find(filter)\<close>, which casts the string.
\<close>

definition getExpenseStats ::
  "timestamp \<Rightarrow> store \<Rightarrow> reqUser \<Rightarrow> timestamp option \<Rightarrow> timestamp option \<Rightarrow> response" where
  "getExpenseStats now st u startDate endDate =
     (let matched = matchStage (Some (BString (ru_id u))) (dateRange startDate endDate) (expenses st);
          currentYear = getFullYear now;
          monthly = matchStage (Some (BObjectId (ru_oid u))) (yearInclusive currentYear) (expenses st)
      in case castObjectId (ru_id u) of
           Inl error \<Rightarrow> json 500 ''Failed to get expense statistics'' (ErrorDetail error)
         | Inr owner \<Rightarrow>
             json 200 []
               (StatsData
                  \<lparr>totalExpenses = firstOr (groupAll matched) (0, 0),
                   expensesByCategory = categoryRows matched,
                   monthlyExpenses = monthRows monthly,
                   recentExpenses =
                     Some (recentRows (filter (\<lambda>e. e_user e = owner \<and> dateRange startDate endDate (e_date e))
                                   (expenses st)))\<rparr>))"

text \<open>
  The inline handler of \<open>GET /stats\<close> in src/unnamed/part_001 (lines 270 to 327): the
  monthly aggregation matches on \<open>req.user.id\<close> too and uses the half-open window; the
  response has no recent expenses (\<open>None\<close>).
\<close>

definition inlineExpenseStats ::
  "timestamp \<Rightarrow> store \<Rightarrow> reqUser \<Rightarrow> timestamp option \<Rightarrow> timestamp option \<Rightarrow> response" where
  "inlineExpenseStats now st u startDate endDate =
     (let matched = matchStage (Some (BString (ru_id u))) (dateRange startDate endDate) (expenses st);
          currentYear = getFullYear now;
          monthly = matchStage (Some (BString (ru_id u))) (yearHalfOpen currentYear) (expenses st)
      in json 200 []
           (StatsData
              \<lparr>totalExpenses = firstOr (groupAll matched) (0, 0),
               expensesByCategory = categoryRows matched,
               monthlyExpenses = monthRows monthly,
               recentExpenses = None\<rparr>))"

text \<open>
  The monthly aggregation of the admin dashboard, over every user's expenses:
  \<open>getDashboardStats\<close> (authController.js lines 661 to 680) with the inclusive window,
  the inline dashboard of src/unnamed/part_002 (lines 66 to 84) with the half-open one.
\<close>

definition dashboardMonthly :: "timestamp \<Rightarrow> store \<Rightarrow> monthRow list" where
  "dashboardMonthly now st =
     monthRows (matchStage None (yearInclusive (getFullYear now)) (expenses st))"

definition inlineDashboardMonthly :: "timestamp \<Rightarrow> store \<Rightarrow> monthRow list" where
  "inlineDashboardMonthly now st =
     monthRows (matchStage None (yearHalfOpen (getFullYear now)) (expenses st))"

section \<open>Example data\<close>

text \<open>
  A configuration, three users, an expense and a clock, for the concrete runs below.
  The stand-in hash prefixes the password; Ann's expense is dated 2024-12-31 at noon.
\<close>

definition exEnv :: env where
  "exEnv =
     \<lparr>ADMIN_EMAIL = ''root@ease.io'', ADMIN_PASSWORD = ''admin123456'',
      hashPassword = (\<lambda>p. ''h:'' @ p),
      comparePassword = (\<lambda>p h. h = ''h:'' @ p),
      isEmail = (\<lambda>s. CHR ''@'' \<in> set s)\<rparr>"

definition ann :: user where
  "ann =
     \<lparr>u_id = ObjectId ''aaaaaaaaaaaaaaaaaaaaaaa1'', u_name = ''Ann'', u_email = ''ann@ease.io'',
      u_password = ''h:secret1'', u_role = ''user'', u_monthlyBudget = 0, u_currency = ''USD'',
      u_isActive = True, u_lastLogin = Some 1700000000000, u_createdAt = 1600000000000\<rparr>"

definition bob :: user where
  "bob =
     \<lparr>u_id = ObjectId ''aaaaaaaaaaaaaaaaaaaaaaa2'', u_name = ''Bob'', u_email = ''bob@ease.io'',
      u_password = ''h:secret2'', u_role = ''user'', u_monthlyBudget = 0, u_currency = ''USD'',
      u_isActive = False, u_lastLogin = None, u_createdAt = 1600000000000\<rparr>"

definition root :: user where
  "root =
     \<lparr>u_id = ObjectId ''aaaaaaaaaaaaaaaaaaaaaaa0'', u_name = ''Admin'', u_email = ''root@ease.io'',
      u_password = ''h:admin123456'', u_role = ''admin'', u_monthlyBudget = 0,
      u_currency = ''USD'', u_isActive = True, u_lastLogin = None, u_createdAt = 1600000000000\<rparr>"

definition coffee :: expense where
  "coffee =
     \<lparr>e_id = ObjectId ''bbbbbbbbbbbbbbbbbbbbbbb1'', e_user = ObjectId ''aaaaaaaaaaaaaaaaaaaaaaa1'',
      e_title = ''Coffee'', e_amount = 9 / 2, e_category = ''Food & Dining'',
      e_description = None, e_date = 1735646400000, e_paymentMethod = ''Cash'',
      e_location = None, e_tags = [], e_isRecurring = False, e_recurringType = ''monthly'',
      e_attachments = [], e_status = ''completed'', e_createdAt = 1735646400000,
      e_updatedAt = 1735646400000\<rparr>"

definition exStore :: store where
  "exStore = \<lparr>users = [root, ann, bob], expenses = [coffee]\<rparr>"

text \<open>A moment of 2024-12-31, in the afternoon.\<close>

definition exNow :: timestamp where
  "exNow = 1735650000000"

definition exBody :: expenseBody where
  "exBody =
     \<lparr>b_title = Some ''Tea'', b_amount = Some 3, b_category = Some ''Food & Dining'',
      b_description = None, b_date = None, b_paymentMethod = None, b_location = None,
      b_tags = None, b_isRecurring = None, b_recurringType = None, b_status = None,
      b_user = None\<rparr>"


definition exRegister :: registerBody where
  "exRegister =
     \<lparr>rb_name = Some ''Cy'', rb_email = Some ''cy@ease.io'', rb_password = Some ''secret3'',
      rb_monthlyBudget = None, rb_currency = None\<rparr>"

text \<open>Two identifiers the driver has not handed out yet.\<close>

definition exNewId :: objectId where
  "exNewId = ObjectId ''aaaaaaaaaaaaaaaaaaaaaaa3''"

definition exOtherId :: objectId where
  "exOtherId = ObjectId ''aaaaaaaaaaaaaaaaaaaaaaa4''"

text \<open>The store before the operator's first admin login: no user holds the admin email.\<close>

definition exStoreNoAdmin :: store where
  "exStoreNoAdmin = \<lparr>users = [ann, bob], expenses = [coffee]\<rparr>"

text \<open>
  The example store after Ann deleted her account: her expense stays, with no owner
  document behind it.
\<close>

definition exStoreOrphan :: store where
  "exStoreOrphan = \<lparr>users = [root, bob], expenses = [coffee]\<rparr>"

definition exCoffeeId :: string where
  "exCoffeeId = ''bbbbbbbbbbbbbbbbbbbbbbb1''"

text \<open>A second expense of Ann's, dated 2024-06-15 at noon.\<close>

definition lunch :: expense where
  "lunch =
     \<lparr>e_id = ObjectId ''bbbbbbbbbbbbbbbbbbbbbbb2'', e_user = ObjectId ''aaaaaaaaaaaaaaaaaaaaaaa1'',
      e_title = ''Lunch'', e_amount = 12, e_category = ''Food & Dining'',
      e_description = None, e_date = 1718452800000, e_paymentMethod = ''Cash'',
      e_location = None, e_tags = [], e_isRecurring = False, e_recurringType = ''monthly'',
      e_attachments = [], e_status = ''completed'', e_createdAt = 1718452800000,
      e_updatedAt = 1718452800000\<rparr>"

definition exStoreTwo :: store where
  "exStoreTwo = \<lparr>users = [root, ann, bob], expenses = [coffee, lunch]\<rparr>"

text \<open>
  A store in which somebody registered under the operator's admin email before the
  operator ever logged in: Eve, an ordinary user.
\<close>

definition eve :: user where
  "eve =
     \<lparr>u_id = ObjectId ''aaaaaaaaaaaaaaaaaaaaaaa5'', u_name = ''Eve'', u_email = ''root@ease.io'',
      u_password = ''h:evesecret'', u_role = ''user'', u_monthlyBudget = 0, u_currency = ''USD'',
      u_isActive = True, u_lastLogin = None, u_createdAt = 1600000000000\<rparr>"

definition exStoreEve :: store where
  "exStoreEve = \<lparr>users = [ann, eve], expenses = [coffee]\<rparr>"

section \<open>Properties\<close>

subsection \<open>Helper facts\<close>

lemma find_holds: "find P xs = Some x \<Longrightarrow> P x"
  by (induction xs) (auto split: if_splits)

lemma dispatch_inline_not_stats:
  "dispatch inlineExpenseRouter m p \<noteq> Some (GetExpenseStats, params)"
proof (cases p)
  case Nil
  then show ?thesis by (cases m) (simp_all add: inlineExpenseRouter_def)
next
  case (Cons x xs)
  then show ?thesis
    by (cases m; cases xs) (simp_all add: inlineExpenseRouter_def)
qed

subsection \<open>Ownership of a single expense\<close>

text \<open>
  Where the owner of the expense still has a user document, \<open>getExpense\<close> does what
  claim C1 says: a caller who is neither the owner nor an admin is answered 403 without
  the expense, and an admin is answered 200 with it, whoever owns it.
\<close>

lemma getExpense_ownership:
  assumes "Expense_findById (expenses st) idParam = Inr (Some e)"
    and "populate (users st) (e_user e) = Some owner"
  shows "(toString (ref_id owner) \<noteq> ru_id u \<and> ru_role u \<noteq> ''admin'' \<longrightarrow>
            getExpense st u idParam = json 403 ''Not authorized to access this expense'' NoData)
       \<and> (ru_role u = ''admin'' \<longrightarrow>
            getExpense st u idParam = json 200 [] (ExpensePopulated e (Some owner)))"
  using assms by (simp add: getExpense_def)

text \<open>
  Where the owner's document is gone, \<open>getExpense\<close> answers 500 to every caller.
\<close>

lemma getExpense_orphan:
  assumes "Expense_findById (expenses st) idParam = Inr (Some e)"
    and "populate (users st) (e_user e) = None"
  shows "getExpense st u idParam = json 500 ''Failed to get expense'' (ErrorDetail TypeError)"
  using assms by (simp add: getExpense_def)

text \<open>
  \<open>updateExpense\<close> and \<open>deleteExpense\<close> check the stored owner identifier itself, with
  the same two outcomes, whether or not the owner's document exists.
\<close>

lemma update_delete_ownership:
  assumes "Expense_findById (expenses st) idParam = Inr (Some e)"
  shows "(toString (e_user e) \<noteq> ru_id u \<and> ru_role u \<noteq> ''admin'' \<longrightarrow>
            updateExpense now st u idParam body =
              (json 403 ''Not authorized to update this expense'' NoData, st)
            \<and> deleteExpense st u idParam =
              (json 403 ''Not authorized to delete this expense'' NoData, st))
       \<and> (ru_role u = ''admin'' \<longrightarrow>
            status (fst (updateExpense now st u idParam body)) \<noteq> 403
            \<and> deleteExpense st u idParam =
              (json 200 ''Expense deleted successfully'' NoData,
               st\<lparr>expenses := Expense_deleteOne (expenses st) e\<rparr>))"
  using assms
  by (auto simp: updateExpense_def deleteExpense_def json_def split: sum.splits option.splits)

text \<open>
  Claim C1 on an expense whose owner is gone. Ann deletes her account, which leaves her
  expense in the store (claim C9). The expense exists, yet \<open>GET /expenses/:id\<close> answers
  500 to the admin, where the claim says success, and 500 to Bob, where the claim says
  403: the handler reads \<open>expense.user._id\<close> of a populated owner that is \<open>null\<close>. The
  delete handler, which compares \<open>expense.user\<close> as stored, answers Bob 403 and the
  admin 200 on the same expense.
\<close>

theorem getExpense_orphaned_expense:
  "deleteAccount exEnv exStore (protect ann) (Some ''secret1'') =
     (json 200 ''Account deleted successfully'' NoData, exStoreOrphan)
   \<and> Expense_findById (expenses exStoreOrphan) exCoffeeId = Inr (Some coffee)
   \<and> getExpense exStoreOrphan (protect root) exCoffeeId =
       json 500 ''Failed to get expense'' (ErrorDetail TypeError)
   \<and> getExpense exStoreOrphan (protect bob) exCoffeeId =
       json 500 ''Failed to get expense'' (ErrorDetail TypeError)
   \<and> fst (deleteExpense exStoreOrphan (protect bob) exCoffeeId) =
       json 403 ''Not authorized to delete this expense'' NoData
   \<and> fst (deleteExpense exStoreOrphan (protect root) exCoffeeId) =
       json 200 ''Expense deleted successfully'' NoData"
  by code_simp

subsection \<open>Creating an expense that the validators refuse\<close>

lemma Expense_create_invalid:
  assumes "(\<exists>a. b_amount doc = Some a \<and> a < 0) \<or> (\<exists>c. b_category doc = Some c \<and> c \<notin> set categories)"
  shows "Expense_create now newId coll doc = Inl ValidationError"
  using assms
  by (auto simp: Expense_create_def validateExpense_def validAmount_def validCategory_def Let_def
      split: option.splits sum.splits)

text \<open>
  Whatever else the body holds, a negative amount or a category outside the enum makes
  the validation stage record an error, the handler run all the same, the schema refuse
  the document, and the request end in 500 with nothing persisted.
\<close>

lemma postExpense_invalid:
  assumes "(\<exists>a. b_amount body = Some a \<and> a < 0) \<or> (\<exists>c. b_category body = Some c \<and> c \<notin> set categories)"
  shows "snd (postExpense now newId st u body) =
           (json 500 ''Failed to create expense'' (ErrorDetail ValidationError), st)
       \<and> fst (postExpense now newId st u body) \<noteq> []"
proof -
  have "Expense_create now newId (expenses st) ((sanitizeExpense body)\<lparr>b_user := Some (ru_id u)\<rparr>) =
      Inl ValidationError"
    using assms by (intro Expense_create_invalid) (simp add: sanitizeExpense_def)
  moreover have "expenseValidation body \<noteq> []"
    using assms by (auto simp: expenseValidation_def)
  ultimately show ?thesis
    by (simp add: postExpense_def createExpense_def Let_def)
qed

text \<open>
  Claim C2 on two requests of Ann's: an amount of -1, and the category "Pets". The
  validation stage records its message each time, but the answer is the handler's 500
  "Failed to create expense", not a 400 from the validation stage; the store is
  unchanged, as the claim says. The same body with a valid amount and category is
  created (201).
\<close>

theorem invalid_expense_answered_500:
  "postExpense exNow exNewId exStore (protect ann) (exBody\<lparr>b_amount := Some (- 1)\<rparr>) =
     ([''Amount must be a positive number''],
      json 500 ''Failed to create expense'' (ErrorDetail ValidationError), exStore)
   \<and> postExpense exNow exNewId exStore (protect ann) (exBody\<lparr>b_category := Some ''Pets''\<rparr>) =
     ([''Invalid category''],
      json 500 ''Failed to create expense'' (ErrorDetail ValidationError), exStore)
   \<and> status (fst (snd (postExpense exNow exNewId exStore (protect ann) exBody))) = 201"
  by code_simp

subsection \<open>Login\<close>

lemma findOne_save:
  "User_findOne us email = Some user \<Longrightarrow> u_email user' = email \<Longrightarrow> u_id user' = u_id user
   \<Longrightarrow> User_findOne (User_save us user') email = Some user'"
  unfolding User_findOne_def User_save_def
  by (induction us) (auto split: if_splits)

text \<open>
  Claim C3, as stated, fails: the handler checks the password before it looks at
  \<open>isActive\<close>, so a login on a deactivated account with a wrong password is answered
  with the message of invalid credentials, not with the one of a disabled account. Bob
  is deactivated, and the password sent is not his.
\<close>

theorem login_inactive_wrong_password:
  "User_findOne (users exStore) ''bob@ease.io'' = Some bob \<and> \<not> u_isActive bob
   \<and> \<not> comparePassword exEnv ''guess'' (u_password bob)
   \<and> fst (login exEnv exNow exStore \<lparr>lb_email = Some ''bob@ease.io'', lb_password = Some ''guess''\<rparr>) =
       json 401 ''Invalid email or password'' NoData"
  by (simp add: login_def User_findOne_def exStore_def exEnv_def bob_def ann_def root_def)

text \<open>
  Claim C3, amended. For a login that names an existing user, with email and password
  both given: a wrong password is answered 401 "Invalid email or password" whether or
  not the account is active; the right password on a deactivated account is answered
  401 "Account is deactivated. Please contact support."; the right password on an
  active account is answered 200 with a token, and the user stored under that email
  then has \<open>lastLogin\<close> equal to the time of the request (so not before the previous
  value whenever the clock has not gone back), everything else as it was. The two
  refusals write nothing.
\<close>

theorem login_outcomes:
  assumes found: "User_findOne (users st) email = Some user"
    and given: "email \<noteq> []" "password \<noteq> []"
  shows "(\<not> comparePassword env password (u_password user) \<longrightarrow>
            login env now st \<lparr>lb_email = Some email, lb_password = Some password\<rparr> =
              (json 401 ''Invalid email or password'' NoData, st))
       \<and> (comparePassword env password (u_password user) \<and> \<not> u_isActive user \<longrightarrow>
            login env now st \<lparr>lb_email = Some email, lb_password = Some password\<rparr> =
              (json 401 ''Account is deactivated. Please contact support.'' NoData, st))
       \<and> (comparePassword env password (u_password user) \<and> u_isActive user \<longrightarrow>
            fst (login env now st \<lparr>lb_email = Some email, lb_password = Some password\<rparr>) =
              json 200 ''Login successful''
                (AuthData (userView (user\<lparr>u_lastLogin := Some now\<rparr>)) (generateToken (u_id user)))
            \<and> User_findOne
                 (users (snd (login env now st \<lparr>lb_email = Some email, lb_password = Some password\<rparr>)))
                 email = Some (user\<lparr>u_lastLogin := Some now\<rparr>)
            \<and> expenses (snd (login env now st \<lparr>lb_email = Some email, lb_password = Some password\<rparr>)) =
                 expenses st)"
proof -
  have mail: "u_email user = email"
    using found find_holds [of "\<lambda>u. u_email u = email" "users st" user]
    by (simp add: User_findOne_def)
  have saved: "User_findOne (User_save (users st) (user\<lparr>u_lastLogin := Some now\<rparr>)) email =
      Some (user\<lparr>u_lastLogin := Some now\<rparr>)"
    using found mail by (intro findOne_save) simp_all
  show ?thesis
    using found given saved by (simp add: login_def Let_def)
qed

text \<open>
  The three cases on the example store: Bob (deactivated) with a wrong and with his own
  password, Ann (active) with her own.
\<close>

theorem login_outcomes_witness:
  "login exEnv exNow exStore \<lparr>lb_email = Some ''bob@ease.io'', lb_password = Some ''guess''\<rparr> =
     (json 401 ''Invalid email or password'' NoData, exStore)
   \<and> login exEnv exNow exStore \<lparr>lb_email = Some ''bob@ease.io'', lb_password = Some ''secret2''\<rparr> =
     (json 401 ''Account is deactivated. Please contact support.'' NoData, exStore)
   \<and> status (fst (login exEnv exNow exStore
        \<lparr>lb_email = Some ''ann@ease.io'', lb_password = Some ''secret1''\<rparr>)) = 200
   \<and> User_findOne (users (snd (login exEnv exNow exStore
        \<lparr>lb_email = Some ''ann@ease.io'', lb_password = Some ''secret1''\<rparr>))) ''ann@ease.io'' =
        Some (ann\<lparr>u_lastLogin := Some exNow\<rparr>)"
proof -
  have fb: "User_findOne (users exStore) ''bob@ease.io'' = Some bob"
    by (simp add: User_findOne_def exStore_def bob_def ann_def root_def)
  have fa: "User_findOne (users exStore) ''ann@ease.io'' = Some ann"
    by (simp add: User_findOne_def exStore_def bob_def ann_def root_def)
  have b1: "\<not> comparePassword exEnv ''guess'' (u_password bob)"
    by (simp add: exEnv_def bob_def)
  have b2: "comparePassword exEnv ''secret2'' (u_password bob) \<and> \<not> u_isActive bob"
    by (simp add: exEnv_def bob_def)
  have a1: "comparePassword exEnv ''secret1'' (u_password ann) \<and> u_isActive ann"
    by (simp add: exEnv_def ann_def)
  show ?thesis
    using login_outcomes [OF fb, of "''guess''" exEnv exNow]
      login_outcomes [OF fb, of "''secret2''" exEnv exNow]
      login_outcomes [OF fa, of "''secret1''" exEnv exNow] b1 b2 a1
    by (simp add: json_def)
qed

subsection \<open>Registering the same email twice\<close>

lemma User_create_taken:
  "d_email doc = Some e \<Longrightarrow> User_findOne us e \<noteq> None \<Longrightarrow>
   User_create env now newId us doc = Inl ValidationError
   \<or> User_create env now newId us doc = Inl DuplicateKeyError"
  by (auto simp: User_create_def Let_def split: option.splits)

lemma User_create_emails:
  "User_create env now newId us doc = Inr (u, us') \<Longrightarrow>
   us' = us @ [u] \<and> d_email doc = Some (u_email u) \<and> User_findOne us (u_email u) = None"
  by (auto simp: User_create_def Let_def split: option.splits if_splits)

lemma findOne_None: "User_findOne us e = None \<longleftrightarrow> e \<notin> u_email ` set us"
  by (auto simp: User_findOne_def find_None_iff)

lemma findOne_append: "User_findOne (us @ [u]) (u_email u) \<noteq> None"
  by (simp add: findOne_None)

lemma registerAfterLookup_cases:
  "registerAfterLookup env now newId ex st body = (r, st') \<Longrightarrow>
   (status r = 201 \<and> ex = None \<and>
    (\<exists>u. User_create env now newId (users st)
            \<lparr>d_name = rb_name body, d_email = rb_email body,
             d_password = rb_password body, d_role = None,
             d_monthlyBudget = (case rb_monthlyBudget body of None \<Rightarrow> 0 | Some b \<Rightarrow> b),
             d_currency =
               (case rb_currency body of
                  None \<Rightarrow> ''USD'' | Some c \<Rightarrow> if c = [] then ''USD'' else c)\<rparr> =
          Inr (u, users st')) \<and>
    expenses st' = expenses st)
   \<or> (status r \<noteq> 201 \<and> st' = st)"
  by (auto simp: registerAfterLookup_def json_def split: option.splits sum.splits)

lemma register_keeps_emails_distinct:
  assumes "distinct (map u_email (users st))"
  shows "distinct (map u_email (users (snd (registerAfterLookup env now newId ex st body))))"
proof (cases "registerAfterLookup env now newId ex st body")
  case (Pair r st')
  from registerAfterLookup_cases [OF Pair] show ?thesis
  proof
    assume "status r = 201 \<and> ex = None \<and>
      (\<exists>u. User_create env now newId (users st)
            \<lparr>d_name = rb_name body, d_email = rb_email body,
             d_password = rb_password body, d_role = None,
             d_monthlyBudget = (case rb_monthlyBudget body of None \<Rightarrow> 0 | Some b \<Rightarrow> b),
             d_currency =
               (case rb_currency body of
                  None \<Rightarrow> ''USD'' | Some c \<Rightarrow> if c = [] then ''USD'' else c)\<rparr> =
          Inr (u, users st')) \<and>
      expenses st' = expenses st"
    then obtain u where "users st' = users st @ [u]" "User_findOne (users st) (u_email u) = None"
      using User_create_emails by blast
    with assms Pair show ?thesis by (simp add: findOne_None)
  next
    assume "status r \<noteq> 201 \<and> st' = st"
    with assms Pair show ?thesis by simp
  qed
qed

text \<open>
  Claim C4, as stated, fails where it says "never a generic 500": when the second
  request's lookup ran before the first request's insert, its own insert meets the
  unique index, the duplicate-key error lands in the handler's \<open>catch\<close>, and the answer
  is 500 "Registration failed". Both requests carry \<open>exRegister\<close>; the second one's
  lookup sees the store as it was before the first.
\<close>

theorem register_race_is_500:
  "registerAfterLookup exEnv exNow exOtherId (registerLookup exStore exRegister)
     (snd (register exEnv exNow exNewId exStore exRegister)) exRegister =
   (json 500 ''Registration failed'' (ErrorDetail DuplicateKeyError),
    snd (register exEnv exNow exNewId exStore exRegister))"
  by (simp add: register_def registerLookup_def registerAfterLookup_def User_create_def
      User_findOne_def validateUser_def exStore_def exEnv_def exRegister_def ann_def bob_def
      root_def trim_def isSpace_def orDefault_def currencies_def Let_def)

text \<open>
  Claim C4, amended. Let a first register request succeed (201), and let a second one
  carry the same email as the handler receives it (the route has normalised it by
  then). Run after the first, the second finds the user and is answered 400 "User
  already exists with this email". Run so that its lookup came before the first one's
  insert, its lookup finds nobody, its insert is refused, and it is answered 500
  "Registration failed". Either way the store stays as the first request left it: no
  second user is created, and emails that were pairwise distinct stay so.
\<close>

theorem register_twice:
  assumes first: "status (fst (register env now1 id1 st body1)) = 201"
    and same: "rb_email body2 = rb_email body1"
    and st1: "st1 = snd (register env now1 id1 st body1)"
  shows "register env now2 id2 st1 body2 =
           (json 400 ''User already exists with this email'' NoData, st1)
       \<and> registerLookup st body2 = None
       \<and> status (fst (registerAfterLookup env now2 id2 (registerLookup st body2) st1 body2)) = 500
       \<and> message (fst (registerAfterLookup env now2 id2 (registerLookup st body2) st1 body2)) =
           ''Registration failed''
       \<and> snd (registerAfterLookup env now2 id2 (registerLookup st body2) st1 body2) = st1
       \<and> (distinct (map u_email (users st)) \<longrightarrow> distinct (map u_email (users st1)))"
proof -
  obtain r where reg: "registerAfterLookup env now1 id1 (registerLookup st body1) st body1 = (r, st1)"
    using st1 by (cases "registerAfterLookup env now1 id1 (registerLookup st body1) st body1")
      (simp add: register_def)
  have r201: "status r = 201"
    using first reg by (simp add: register_def)
  from registerAfterLookup_cases [OF reg] r201
  obtain u where look: "registerLookup st body1 = None"
    and cr: "User_create env now1 id1 (users st)
        \<lparr>d_name = rb_name body1, d_email = rb_email body1,
         d_password = rb_password body1, d_role = None,
         d_monthlyBudget = (case rb_monthlyBudget body1 of None \<Rightarrow> 0 | Some b \<Rightarrow> b),
         d_currency =
           (case rb_currency body1 of
              None \<Rightarrow> ''USD'' | Some c \<Rightarrow> if c = [] then ''USD'' else c)\<rparr> = Inr (u, users st1)"
    by blast
  from User_create_emails [OF cr]
  have us1: "users st1 = users st @ [u]" and mail: "rb_email body1 = Some (u_email u)"
    by simp_all
  have taken: "User_findOne (users st1) (u_email u) \<noteq> None"
    using us1 findOne_append by simp
  have seq: "register env now2 id2 st1 body2 =
      (json 400 ''User already exists with this email'' NoData, st1)"
    using taken same mail
    by (auto simp: register_def registerLookup_def registerAfterLookup_def)
  have look2: "registerLookup st body2 = None"
    using look same by (simp add: registerLookup_def)
  have "User_create env now2 id2 (users st1)
        \<lparr>d_name = rb_name body2, d_email = rb_email body2,
         d_password = rb_password body2, d_role = None,
         d_monthlyBudget = (case rb_monthlyBudget body2 of None \<Rightarrow> 0 | Some b \<Rightarrow> b),
         d_currency =
           (case rb_currency body2 of
              None \<Rightarrow> ''USD'' | Some c \<Rightarrow> if c = [] then ''USD'' else c)\<rparr> = Inl ValidationError
     \<or> User_create env now2 id2 (users st1)
        \<lparr>d_name = rb_name body2, d_email = rb_email body2,
         d_password = rb_password body2, d_role = None,
         d_monthlyBudget = (case rb_monthlyBudget body2 of None \<Rightarrow> 0 | Some b \<Rightarrow> b),
         d_currency =
           (case rb_currency body2 of
              None \<Rightarrow> ''USD'' | Some c \<Rightarrow> if c = [] then ''USD'' else c)\<rparr> = Inl DuplicateKeyError"
    using taken same mail by (intro User_create_taken) simp_all
  then have race: "status (fst (registerAfterLookup env now2 id2 None st1 body2)) = 500
      \<and> message (fst (registerAfterLookup env now2 id2 None st1 body2)) = ''Registration failed''
      \<and> snd (registerAfterLookup env now2 id2 None st1 body2) = st1"
    by (auto simp: registerAfterLookup_def json_def)
  have inv: "distinct (map u_email (users st)) \<longrightarrow> distinct (map u_email (users st1))"
    using register_keeps_emails_distinct [of st env now1 id1 "registerLookup st body1" body1] reg
    by simp
  from seq look2 race inv show ?thesis by simp
qed

text \<open>Cy registers on the example store, then the same request comes again.\<close>

theorem register_twice_witness:
  "status (fst (register exEnv exNow exNewId exStore exRegister)) = 201
   \<and> register exEnv exNow exOtherId (snd (register exEnv exNow exNewId exStore exRegister)) exRegister =
       (json 400 ''User already exists with this email'' NoData,
        snd (register exEnv exNow exNewId exStore exRegister))
   \<and> status (fst (registerAfterLookup exEnv exNow exOtherId (registerLookup exStore exRegister)
        (snd (register exEnv exNow exNewId exStore exRegister)) exRegister)) = 500
   \<and> distinct (map u_email (users (snd (register exEnv exNow exNewId exStore exRegister))))"
proof -
  have first: "status (fst (register exEnv exNow exNewId exStore exRegister)) = 201"
    by (simp add: register_def registerLookup_def registerAfterLookup_def User_create_def
      User_findOne_def validateUser_def exStore_def exEnv_def exRegister_def ann_def bob_def
      root_def trim_def isSpace_def orDefault_def currencies_def Let_def json_def)
  have d: "distinct (map u_email (users exStore))"
    by (simp add: exStore_def ann_def bob_def root_def)
  show ?thesis
    using first d register_twice [OF first refl refl, of exNow exOtherId]
    by blast
qed

subsection \<open>Statistics\<close>

text \<open>
  An aggregation that matches the owner against a string selects nothing: every stored
  owner is an \<open>ObjectId\<close>.
\<close>

lemma aggregate_string_owner: "matchStage (Some (BString s)) inRange coll = []"
  by (simp add: matchStage_def optAll_def)

lemma stats_total_always_zero:
  "getExpenseStats now st u startDate endDate = json 200 [] (StatsData s) \<Longrightarrow>
   totalExpenses s = (0, 0) \<and> expensesByCategory s = []"
  by (auto simp: getExpenseStats_def aggregate_string_owner groupAll_def firstOr_def
      categoryRows_def groupBy_def json_def Let_def split: sum.splits)

text \<open>
  Claim C5 on Ann's two expenses, 4.50 and 12.00, no date range given. The handler
  reports a total of 0 over 0 expenses and no category at all, where the claim says
  16.50 over 2: the total and the per-category aggregation match the owner against the
  string \<open>req.user.id\<close>. The monthly aggregation of the same handler, which matches
  against \<open>req.user._id\<close>, finds the June expense, and the recent expenses, which come
  from \<open>find\<close>, list both.
\<close>

theorem stats_total_is_zero:
  "getExpenseStats exNow exStoreTwo (protect ann) None None =
     json 200 []
       (StatsData
          \<lparr>totalExpenses = (0, 0), expensesByCategory = [],
           monthlyExpenses = [\<lparr>m_key = 6, m_total = 12, m_count = 1\<rparr>],
           recentExpenses =
             Some [\<lparr>r_title = ''Coffee'', r_amount = 9 / 2, r_category = ''Food & Dining'',
                     r_date = 1735646400000\<rparr>,
                   \<lparr>r_title = ''Lunch'', r_amount = 12, r_category = ''Food & Dining'',
                     r_date = 1718452800000\<rparr>]\<rparr>)
   \<and> sum_list (map e_amount (filter (\<lambda>e. e_user e = u_id ann) (expenses exStoreTwo))) = 33 / 2
   \<and> length (filter (\<lambda>e. e_user e = u_id ann) (expenses exStoreTwo)) = 2"
  by code_simp

subsection \<open>Pagination\<close>







subsection \<open>The two windows of the current year\<close>

lemma year_step:
  fixes n :: int
  shows "(n div 400) * 146097 + (n - (n div 400) * 400) * 365 + (n - (n div 400) * 400) div 4
           - (n - (n div 400) * 400) div 100 + 364
         \<le> ((n + 1) div 400) * 146097 + ((n + 1) - ((n + 1) div 400) * 400) * 365
           + ((n + 1) - ((n + 1) div 400) * 400) div 4 - ((n + 1) - ((n + 1) div 400) * 400) div 100"
proof -
  define a where "a = n div 400"
  define r where "r = n mod 400"
  have n: "n = 400 * a + r" and r: "0 \<le> r" "r < 400"
    by (simp_all add: a_def r_def)
  have d: "n div 400 = a" by (simp add: a_def)
  have e: "n - a * 400 = r" using n by simp
  show ?thesis
  proof (cases "r = 399")
    case True
    have "n + 1 = 400 * (a + 1)" using n True by simp
    then have d1: "(n + 1) div 400 = a + 1" by simp
    have e1: "n + 1 - (a + 1) * 400 = 0" using n True by simp
    show ?thesis unfolding d d1 e e1 using True by simp
  next
    case False
    have b: "0 \<le> r + 1" "r + 1 < 400" using r False by simp_all
    have "(400 * a + (r + 1)) div 400 = a" using b by simp
    moreover have "n + 1 = 400 * a + (r + 1)" using n by simp
    ultimately have d1: "(n + 1) div 400 = a" by simp
    have e1: "n + 1 - a * 400 = r + 1" using n by simp
    have a1: "r div 4 \<le> (r + 1) div 4" by (rule zdiv_mono1) simp_all
    have a2: "(r + 1) div 100 \<le> (r + 100) div 100" by (rule zdiv_mono1) simp_all
    have a3: "(r + 100) div 100 = r div 100 + 1" by simp
    define p4 where "p4 = r div 4"
    define q4 where "q4 = (r + 1) div 4"
    define p100 where "p100 = r div 100"
    define q100 where "q100 = (r + 1) div 100"
    have "p4 \<le> q4" "q100 \<le> p100 + 1"
      using a1 a2 a3 by (simp_all add: p4_def q4_def p100_def q100_def)
    then have "a * 146097 + r * 365 + p4 - p100 + 364
        \<le> a * 146097 + (r + 1) * 365 + q4 - q100"
      by (simp add: algebra_simps)
    then show ?thesis unfolding d d1 e e1 p4_def q4_def p100_def q100_def .
  qed
qed

lemma new_year_before_last_day: "newDate y 0 1 \<le> newDate y 11 31"
proof -
  have "daysFromCivil y 1 1 \<le> daysFromCivil y 12 31"
    using year_step [of "y - 1"] by (simp add: daysFromCivil_def Let_def)
  then show ?thesis by (simp add: newDate_def msPerDay_def)
qed

lemma next_new_year: "newDate (y + 1) 0 1 = newDate y 11 31 + msPerDay"
  by (simp add: newDate_def daysFromCivil_def msPerDay_def Let_def algebra_simps)

text \<open>
  The inclusive window ends at midnight at the start of December 31 and lies inside
  the half-open one, which runs a whole day longer: every moment after that midnight
  and before the new year is in the half-open window and not in the inclusive one.
\<close>

lemma year_windows:
  "(yearInclusive y t \<longrightarrow> yearHalfOpen y t)
   \<and> (newDate y 11 31 < t \<and> t < newDate (y + 1) 0 1 \<longrightarrow> yearHalfOpen y t \<and> \<not> yearInclusive y t)"
  using next_new_year [of y] new_year_before_last_day [of y]
  by (auto simp: yearInclusive_def yearHalfOpen_def msPerDay_def)

text \<open>
  On the dashboard, where no owner is matched, an expense dated in that last day is
  counted by the half-open aggregation and not by the inclusive one.
\<close>

lemma dashboards_differ:
  assumes "getFullYear now = y" and "newDate y 11 31 < e_date e" and "e_date e < newDate (y + 1) 0 1"
  shows "inlineDashboardMonthly now \<lparr>users = us, expenses = [e]\<rparr> =
           [\<lparr>m_key = month (e_date e), m_total = e_amount e, m_count = 1\<rparr>]
       \<and> dashboardMonthly now \<lparr>users = us, expenses = [e]\<rparr> = []"
  using assms year_windows [of y "e_date e"]
  by (simp add: inlineDashboardMonthly_def dashboardMonthly_def matchStage_def optAll_def
      monthRows_def groupBy_def)

text \<open>
  The inline handler of \<open>GET /stats\<close> in src/unnamed/part_001 carries the half-open
  window too, but it matches the owner against a string in all three of its
  aggregations: applied to any store, caller and dates it would report a total of 0 and
  no month at all. The router of part_001 hands it no request.
\<close>

lemma inline_stats_always_empty:
  "inlineExpenseStats now st u startDate endDate =
     json 200 []
       (StatsData \<lparr>totalExpenses = (0, 0), expensesByCategory = [], monthlyExpenses = [],
                   recentExpenses = None\<rparr>)"
  by (simp add: inlineExpenseStats_def aggregate_string_owner groupAll_def firstOr_def
      categoryRows_def monthRows_def groupBy_def)

text \<open>In every year the two windows are told apart by the first millisecond after the
  midnight that opens December 31.\<close>

lemma last_day_moment:
  "yearHalfOpen y (newDate y 11 31 + 1) \<and> \<not> yearInclusive y (newDate y 11 31 + 1)"
  using year_windows [of y "newDate y 11 31 + 1"] next_new_year [of y]
  by (simp add: msPerDay_def)












subsection \<open>Admin login\<close>

lemma trim_Admin: "trim ''Admin'' = ''Admin''"
  by (simp add: trim_def isSpace_def)

text \<open>
  Claim C8, as stated, fails in the branch that creates the admin: \<open>lastLogin\<close> is set
  in the \<open>else\<close> branch only, for a user that was found. On a store where nobody holds
  the admin email, the matching credentials are answered 200 and the one admin the
  store then holds has no \<open>lastLogin\<close>. And the user that is found need not be an
  admin: where Eve, an ordinary user, holds the admin email, the matching credentials
  are answered 200 with a token for Eve, whose role stays \<open>user\<close>.
\<close>

theorem adminLogin_created_without_lastLogin:
  "User_findOne (users exStoreNoAdmin) (ADMIN_EMAIL exEnv) = None
   \<and> status (fst (adminLogin exEnv exNow exNewId exStoreNoAdmin
        \<lparr>lb_email = Some ''root@ease.io'', lb_password = Some ''admin123456''\<rparr>)) = 200
   \<and> map u_lastLogin (filter (\<lambda>u. u_role u = ''admin'')
        (users (snd (adminLogin exEnv exNow exNewId exStoreNoAdmin
          \<lparr>lb_email = Some ''root@ease.io'', lb_password = Some ''admin123456''\<rparr>)))) = [None]
   \<and> adminLogin exEnv exNow exNewId exStoreEve
        \<lparr>lb_email = Some ''root@ease.io'', lb_password = Some ''admin123456''\<rparr> =
      (json 200 ''Admin login successful''
         (AuthData (userView (eve\<lparr>u_lastLogin := Some exNow\<rparr>)) (generateToken (u_id eve))),
       exStoreEve\<lparr>users := [ann, eve\<lparr>u_lastLogin := Some exNow\<rparr>]\<rparr>)
   \<and> u_role (eve\<lparr>u_lastLogin := Some exNow\<rparr>) = ''user''"
  by code_simp

text \<open>
  Claim C8, amended. With admin credentials configured (both not empty), a request
  whose email and password both equal them is answered 200 "Admin login successful"
  with a token: when a user holds the admin email, that user gets \<open>lastLogin\<close> set to
  the time of the request and is otherwise written back as found, its role included;
  when nobody does (and the configured email passes the schema), a user named Admin
  with role admin is created, with no \<open>lastLogin\<close>. A request with email and password
  given of which one differs is answered 401 "Invalid admin credentials", one with an
  empty email or password 400 "Please provide email and password"; neither writes.
\<close>

theorem adminLogin_outcomes:
  assumes cfg: "ADMIN_EMAIL env \<noteq> []" "ADMIN_PASSWORD env \<noteq> []"
  shows "(User_findOne (users st) (ADMIN_EMAIL env) = Some a \<longrightarrow>
            adminLogin env now newId st
              \<lparr>lb_email = Some (ADMIN_EMAIL env), lb_password = Some (ADMIN_PASSWORD env)\<rparr> =
            (json 200 ''Admin login successful''
               (AuthData (userView (a\<lparr>u_lastLogin := Some now\<rparr>)) (generateToken (u_id a))),
             st\<lparr>users := User_save (users st) (a\<lparr>u_lastLogin := Some now\<rparr>)\<rparr>))
       \<and> (User_findOne (users st) (ADMIN_EMAIL env) = None \<and> isEmail env (ADMIN_EMAIL env) \<longrightarrow>
            adminLogin env now newId st
              \<lparr>lb_email = Some (ADMIN_EMAIL env), lb_password = Some (ADMIN_PASSWORD env)\<rparr> =
            (json 200 ''Admin login successful''
               (AuthData
                  \<lparr>v_id = newId, v_name = ''Admin'', v_email = ADMIN_EMAIL env, v_role = ''admin'',
                   v_monthlyBudget = 0, v_currency = ''USD'', v_lastLogin = None\<rparr>
                  (generateToken newId)),
             st\<lparr>users := users st @
               [\<lparr>u_id = newId, u_name = ''Admin'', u_email = ADMIN_EMAIL env,
                 u_password = hashPassword env (ADMIN_PASSWORD env), u_role = ''admin'',
                 u_monthlyBudget = 0, u_currency = ''USD'', u_isActive = True,
                 u_lastLogin = None, u_createdAt = now\<rparr>]\<rparr>))
       \<and> (email \<noteq> [] \<and> password \<noteq> [] \<and>
          (email \<noteq> ADMIN_EMAIL env \<or> password \<noteq> ADMIN_PASSWORD env) \<longrightarrow>
            adminLogin env now newId st \<lparr>lb_email = Some email, lb_password = Some password\<rparr> =
            (json 401 ''Invalid admin credentials'' NoData, st))
       \<and> (email = [] \<or> password = [] \<longrightarrow>
            adminLogin env now newId st \<lparr>lb_email = Some email, lb_password = Some password\<rparr> =
            (json 400 ''Please provide email and password'' NoData, st))"
proof -
  have found: "User_findOne (users st) (ADMIN_EMAIL env) = Some a \<longrightarrow>
            adminLogin env now newId st
              \<lparr>lb_email = Some (ADMIN_EMAIL env), lb_password = Some (ADMIN_PASSWORD env)\<rparr> =
            (json 200 ''Admin login successful''
               (AuthData (userView (a\<lparr>u_lastLogin := Some now\<rparr>)) (generateToken (u_id a))),
             st\<lparr>users := User_save (users st) (a\<lparr>u_lastLogin := Some now\<rparr>)\<rparr>)"
    using cfg by (simp add: adminLogin_def Let_def)
  have created: "User_findOne (users st) (ADMIN_EMAIL env) = None \<and> isEmail env (ADMIN_EMAIL env) \<longrightarrow>
            adminLogin env now newId st
              \<lparr>lb_email = Some (ADMIN_EMAIL env), lb_password = Some (ADMIN_PASSWORD env)\<rparr> =
            (json 200 ''Admin login successful''
               (AuthData
                  \<lparr>v_id = newId, v_name = ''Admin'', v_email = ADMIN_EMAIL env, v_role = ''admin'',
                   v_monthlyBudget = 0, v_currency = ''USD'', v_lastLogin = None\<rparr>
                  (generateToken newId)),
             st\<lparr>users := users st @
               [\<lparr>u_id = newId, u_name = ''Admin'', u_email = ADMIN_EMAIL env,
                 u_password = hashPassword env (ADMIN_PASSWORD env), u_role = ''admin'',
                 u_monthlyBudget = 0, u_currency = ''USD'', u_isActive = True,
                 u_lastLogin = None, u_createdAt = now\<rparr>]\<rparr>)"
    using cfg
    by (simp add: adminLogin_def User_create_def validateUser_def trim_Admin orDefault_def
        currencies_def userView_def Let_def)
  have mismatch: "email \<noteq> [] \<and> password \<noteq> [] \<and>
          (email \<noteq> ADMIN_EMAIL env \<or> password \<noteq> ADMIN_PASSWORD env) \<longrightarrow>
            adminLogin env now newId st \<lparr>lb_email = Some email, lb_password = Some password\<rparr> =
            (json 401 ''Invalid admin credentials'' NoData, st)"
    by (auto simp: adminLogin_def)
  have missing: "email = [] \<or> password = [] \<longrightarrow>
            adminLogin env now newId st \<lparr>lb_email = Some email, lb_password = Some password\<rparr> =
            (json 400 ''Please provide email and password'' NoData, st)"
    by (auto simp: adminLogin_def)
  from found created mismatch missing show ?thesis by blast
qed

text \<open>
  The four cases on the example data: the admin found, the admin created, a wrong
  password, an empty password.
\<close>

theorem adminLogin_outcomes_witness:
  "adminLogin exEnv exNow exNewId exStore
     \<lparr>lb_email = Some ''root@ease.io'', lb_password = Some ''admin123456''\<rparr> =
     (json 200 ''Admin login successful''
        (AuthData (userView (root\<lparr>u_lastLogin := Some exNow\<rparr>)) (generateToken (u_id root))),
      exStore\<lparr>users := User_save (users exStore) (root\<lparr>u_lastLogin := Some exNow\<rparr>)\<rparr>)
   \<and> status (fst (adminLogin exEnv exNow exNewId exStoreNoAdmin
        \<lparr>lb_email = Some ''root@ease.io'', lb_password = Some ''admin123456''\<rparr>)) = 200
   \<and> adminLogin exEnv exNow exNewId exStore
        \<lparr>lb_email = Some ''root@ease.io'', lb_password = Some ''letmein''\<rparr> =
      (json 401 ''Invalid admin credentials'' NoData, exStore)
   \<and> adminLogin exEnv exNow exNewId exStore
        \<lparr>lb_email = Some ''root@ease.io'', lb_password = Some []\<rparr> =
      (json 400 ''Please provide email and password'' NoData, exStore)"
proof -
  have cfg: "ADMIN_EMAIL exEnv \<noteq> []" "ADMIN_PASSWORD exEnv \<noteq> []"
    by (simp_all add: exEnv_def)
  have e: "ADMIN_EMAIL exEnv = ''root@ease.io''" "ADMIN_PASSWORD exEnv = ''admin123456''"
    by (simp_all add: exEnv_def)
  have f: "User_findOne (users exStore) (ADMIN_EMAIL exEnv) = Some root"
    by (simp add: User_findOne_def exStore_def exEnv_def root_def)
  have n: "User_findOne (users exStoreNoAdmin) (ADMIN_EMAIL exEnv) = None
      \<and> isEmail exEnv (ADMIN_EMAIL exEnv)"
    by (simp add: User_findOne_def exEnv_def exStoreNoAdmin_def ann_def bob_def)
  show ?thesis
    using adminLogin_outcomes [OF cfg, of exStore root exNow exNewId "''root@ease.io''" "''letmein''"]
      adminLogin_outcomes [OF cfg, of exStoreNoAdmin root exNow exNewId "''root@ease.io''" "[]"]
      adminLogin_outcomes [OF cfg, of exStore root exNow exNewId "''root@ease.io''" "[]"]
      e f n
    by (simp add: json_def)
qed

subsection \<open>Deleting a user leaves the expenses alone\<close>

text \<open>
  Claim C9. Both ways of deleting a user, the self-service \<open>deleteAccount\<close> and the
  admin's \<open>deleteUser\<close>, leave the expense collection exactly as it was, whatever the
  outcome; and the user collection loses the one user the request names when the
  handler answers 200, and nothing otherwise.
\<close>

theorem delete_user_keeps_expenses:
  "expenses (snd (deleteAccount env st u pw)) = expenses st
   \<and> expenses (snd (deleteUser st u idParam)) = expenses st
   \<and> users (snd (deleteAccount env st u pw)) =
       (if status (fst (deleteAccount env st u pw)) = 200
        then filter (\<lambda>x. castObjectId (ru_id u) \<noteq> Inr (u_id x)) (users st) else users st)
   \<and> users (snd (deleteUser st u idParam)) =
       (if status (fst (deleteUser st u idParam)) = 200
        then filter (\<lambda>x. castObjectId idParam \<noteq> Inr (u_id x)) (users st) else users st)"
proof -
  have a: "expenses (snd (deleteAccount env st u pw)) = expenses st"
    by (simp add: deleteAccount_def split: option.splits sum.splits)
  have b: "expenses (snd (deleteUser st u idParam)) = expenses st"
    by (simp add: deleteUser_def split: option.splits sum.splits)
  have c: "users (snd (deleteAccount env st u pw)) =
       (if status (fst (deleteAccount env st u pw)) = 200
        then filter (\<lambda>x. castObjectId (ru_id u) \<noteq> Inr (u_id x)) (users st) else users st)"
    by (auto simp: deleteAccount_def User_findById_def User_deleteOne_def json_def
        dest!: find_holds split: option.splits sum.splits intro!: filter_cong)
  have d: "users (snd (deleteUser st u idParam)) =
       (if status (fst (deleteUser st u idParam)) = 200
        then filter (\<lambda>x. castObjectId idParam \<noteq> Inr (u_id x)) (users st) else users st)"
    by (auto simp: deleteUser_def User_findById_def User_deleteOne_def json_def
        dest!: find_holds split: option.splits sum.splits intro!: filter_cong)
  from a b c d show ?thesis by blast
qed

subsection \<open>The statistics route behind the parameter route\<close>

text \<open>
  Claim C10. In the router of src/unnamed/part_001, \<open>GET /:id\<close> is registered before
  \<open>GET /stats\<close>: an authenticated \<open>GET /stats\<close> goes to the get-by-id handler with
  \<open>id = "stats"\<close>, and no request at all, whatever its method, path and caller, reaches
  the statistics handler. The router of src/routes/expense.js registers \<open>/stats\<close> first
  and hands the same request to the statistics handler, so the two routers differ on
  this path.
\<close>

theorem stats_route_shadowed:
  "handleRequest inlineExpenseRouter (Some u) GET [''stats''] =
     Routed GetExpense [(''id'', ''stats'')]
   \<and> handleRequest inlineExpenseRouter auth m p \<noteq> Routed GetExpenseStats params
   \<and> handleRequest expenseRouter (Some u) GET [''stats''] = Routed GetExpenseStats []"
proof -
  have a: "handleRequest inlineExpenseRouter (Some u) GET [''stats''] =
      Routed GetExpense [(''id'', ''stats'')]"
    by (simp add: handleRequest_def inlineExpenseRouter_def)
  have b: "handleRequest inlineExpenseRouter auth m p \<noteq> Routed GetExpenseStats params"
    using dispatch_inline_not_stats [of m p]
    by (auto simp: handleRequest_def split: option.splits)
  have c: "handleRequest expenseRouter (Some u) GET [''stats''] = Routed GetExpenseStats []"
    by (simp add: handleRequest_def expenseRouter_def)
  from a b c show ?thesis by blast
qed

text \<open>
  What the get-by-id handler makes of that request: \<open>"stats"\<close> is no identifier, the
  cast in \<open>findById\<close> throws, and the answer is 500.
\<close>

lemma getExpense_of_stats:
  "getExpense st u ''stats'' = json 500 ''Failed to get expense'' (ErrorDetail CastError)"
  by (simp add: getExpense_def Expense_findById_def castObjectId_def)

end
